theory Spec2Isabelle
  imports Complex_Main "HOL-Library.AList"
begin

section \<open>JavaScript values\<close>

text \<open>
  The five programs of the pipeline exchange JSON documents and JavaScript objects. A value
  is one of the JavaScript kinds below; numbers are reals (JSON has no NaN and no infinity),
  an object is its list of properties in insertion order.
\<close>

datatype jsval =
    JUndefined
  | JNull
  | JBool bool
  | JNum real
  | JStr string
  | JArr "jsval list"
  | JObj "(string \<times> jsval) list"

text \<open>Truthiness, as \<^verbatim>\<open>!x\<close>, \<^verbatim>\<open>x || y\<close> and \<^verbatim>\<open>x ? a : b\<close> test it.\<close>

fun truthy :: "jsval \<Rightarrow> bool" where
  "truthy JUndefined = False"
| "truthy JNull = False"
| "truthy (JBool b) = b"
| "truthy (JNum x) = (x \<noteq> 0)"
| "truthy (JStr s) = (s \<noteq> [])"
| "truthy (JArr xs) = True"
| "truthy (JObj kvs) = True"

text \<open>\<^verbatim>\<open>a || b\<close>: the left operand when it is truthy, the right one otherwise.\<close>

definition js_or :: "jsval \<Rightarrow> jsval \<Rightarrow> jsval" where
  "js_or a b = (if truthy a then a else b)"

text \<open>
  Reading a property: a missing property reads as \<^verbatim>\<open>undefined\<close>, and so does any
  property of this pipeline's names on a number, string, boolean or array. Reading a property
  of \<^verbatim>\<open>null\<close> or \<^verbatim>\<open>undefined\<close> throws a TypeError; the callers below guard
  that case before they call \<open>get_prop\<close>.
\<close>

fun get_prop :: "jsval \<Rightarrow> string \<Rightarrow> jsval" where
  "get_prop (JObj kvs) k = (case map_of kvs k of None \<Rightarrow> JUndefined | Some v \<Rightarrow> v)"
| "get_prop v k = JUndefined"

text \<open>A field is populated when the object carries it with a value (JSON drops undefined).\<close>

definition has_field :: "jsval \<Rightarrow> string \<Rightarrow> bool" where
  "has_field e k = (get_prop e k \<noteq> JUndefined)"

text \<open>Log lines of the winston logger: level and message.\<close>

datatype log_line = LogInfo string | LogError string

text \<open>The two topic names, the \<^verbatim>\<open>topics\<close> object of producer and consumer.\<close>

definition API_LOGS :: string where
  "API_LOGS = ''api-logs''"

definition SYSTEM_METRICS :: string where
  "SYSTEM_METRICS = ''system-metrics''"

section \<open>The consumer (kafka-consumer/consumer.js)\<close>

text \<open>
  A bound query parameter: the pg client sends \<^verbatim>\<open>undefined\<close> and \<^verbatim>\<open>null\<close> as SQL
  NULL (\<open>None\<close>) and every other value as itself.
\<close>

definition sql_param :: "jsval \<Rightarrow> jsval option" where
  "sql_param v = (if v = JUndefined \<or> v = JNull then None else Some v)"

text \<open>\<^verbatim>\<open>new Date(v)\<close>, kept as the value it was built from.\<close>

datatype js_date = NewDate jsval

record api_log_row =
  timestamp_col :: js_date
  endpoint_col :: "jsval option"
  status_col :: "jsval option"
  response_time_col :: "jsval option"
  method_col :: "jsval option"
  error_col :: "jsval option"
  error_code_col :: "jsval option"

record system_metrics_row =
  m_timestamp_col :: js_date
  cpu_col :: "jsval option"
  memory_col :: "jsval option"
  disk_usage_col :: "jsval option"
  active_requests_col :: "jsval option"

record store =
  api_logs :: "api_log_row list"
  system_metrics :: "system_metrics_row list"

text \<open>
  The store's answer to one \<^verbatim>\<open>pool.query\<close>: the statement is executed, or the promise
  rejects with an error message (a constraint or type violation, a lost connection).
\<close>

datatype query_reply = QueryOk | QueryFailed string

text \<open>
  Object destructuring \<^verbatim>\<open>const {a, b} = v\<close>: a TypeError on \<^verbatim>\<open>null\<close> and
  \<^verbatim>\<open>undefined\<close>, the property reader otherwise.
\<close>

definition destructure :: "jsval \<Rightarrow> string + (string \<Rightarrow> jsval)" where
  "destructure v =
     (if v = JNull \<or> v = JUndefined then Inl ''Cannot destructure''
      else Inr (get_prop v))"

definition api_log_params :: "(string \<Rightarrow> jsval) \<Rightarrow> api_log_row" where
  "api_log_params f =
     \<lparr> timestamp_col = NewDate (f ''timestamp''),
       endpoint_col = sql_param (f ''endpoint''),
       status_col = sql_param (js_or (f ''status'') JNull),
       response_time_col = sql_param (js_or (f ''responseTime'') JNull),
       method_col = sql_param (js_or (f ''method'') JNull),
       error_col = sql_param (js_or (f ''error'') JNull),
       error_code_col = sql_param (js_or (f ''errorCode'') JNull) \<rparr>"

definition processApiLog :: "query_reply \<Rightarrow> jsval \<Rightarrow> store \<Rightarrow> store \<times> log_line list" where
  "processApiLog reply entry st =
     (case destructure entry of
        Inl msg \<Rightarrow> (st, [LogError (''Error processing API log: '' @ msg)])
      | Inr f \<Rightarrow>
          (case reply of
             QueryFailed msg \<Rightarrow> (st, [LogError (''Error processing API log: '' @ msg)])
           | QueryOk \<Rightarrow>
               (st\<lparr>api_logs := api_logs st @ [api_log_params f]\<rparr>,
                [LogInfo ''API log stored in database''])))"

definition system_metrics_params :: "(string \<Rightarrow> jsval) \<Rightarrow> system_metrics_row" where
  "system_metrics_params f =
     \<lparr> m_timestamp_col = NewDate (f ''timestamp''),
       cpu_col = sql_param (f ''cpu''),
       memory_col = sql_param (f ''memory''),
       disk_usage_col = sql_param (f ''diskUsage''),
       active_requests_col = sql_param (f ''activeRequests'') \<rparr>"

definition processSystemMetrics :: "query_reply \<Rightarrow> jsval \<Rightarrow> store \<Rightarrow> store \<times> log_line list" where
  "processSystemMetrics reply metrics st =
     (case destructure metrics of
        Inl msg \<Rightarrow> (st, [LogError (''Error processing system metrics: '' @ msg)])
      | Inr f \<Rightarrow>
          (case reply of
             QueryFailed msg \<Rightarrow> (st, [LogError (''Error processing system metrics: '' @ msg)])
           | QueryOk \<Rightarrow>
               (st\<lparr>system_metrics := system_metrics st @ [system_metrics_params f]\<rparr>,
                [LogInfo ''System metrics stored in database''])))"

text \<open>
  The \<^verbatim>\<open>eachMessage\<close> handler of \<^verbatim>\<open>main\<close>. \<open>JSON_parse\<close> is the runtime's
  \<^verbatim>\<open>JSON.parse\<close>: \<open>Inl\<close> the SyntaxError's message on a text that is not JSON. A
  message's value is \<open>None\<close> for a record without a value (\<^verbatim>\<open>null\<close>, on which
  \<^verbatim>\<open>toString\<close> throws). The whole body stands in one try/catch, so the handler has
  no exceptional outcome: every error ends as a log line.
\<close>

definition eachMessage ::
  "(string \<Rightarrow> string + jsval) \<Rightarrow> query_reply \<Rightarrow> string \<Rightarrow> string option \<Rightarrow> store
     \<Rightarrow> store \<times> log_line list" where
  "eachMessage JSON_parse reply topic msg_value st =
     (case msg_value of
        None \<Rightarrow> (st, [LogError (''Error processing message: '' @ ''Cannot read properties of null'')])
      | Some s \<Rightarrow>
          (case JSON_parse s of
             Inl msg \<Rightarrow> (st, [LogError (''Error processing message: '' @ msg)])
           | Inr data \<Rightarrow>
               (let received = LogInfo (''Received message from topic '' @ topic) in
                if topic = API_LOGS then
                  (case processApiLog reply data st of (st', ls) \<Rightarrow> (st', received # ls))
                else if topic = SYSTEM_METRICS then
                  (case processSystemMetrics reply data st of (st', ls) \<Rightarrow> (st', received # ls))
                else (st, [received]))))"

section \<open>The producer (unnamed/part_000)\<close>

text \<open>
  The broker as the producer's admin client sees it: whether it answers, and the topics it
  holds. \<^verbatim>\<open>createTopics\<close> fails when the broker does not answer and when a requested
  topic already exists (the duplicate-creation error).
\<close>

record topic_config =
  topic :: string
  numPartitions :: nat
  replicationFactor :: nat

record broker =
  reachable :: bool
  broker_topics :: "topic_config list"

definition connect :: "broker \<Rightarrow> string + unit" where
  "connect b = (if reachable b then Inr () else Inl ''Connection error'')"

definition listTopics :: "broker \<Rightarrow> string + string list" where
  "listTopics b = (if reachable b then Inr (map topic (broker_topics b)) else Inl ''Connection error'')"

definition createTopics :: "topic_config list \<Rightarrow> broker \<Rightarrow> string + broker" where
  "createTopics ts b =
     (if reachable b then
        (if \<exists>t \<in> set ts. topic t \<in> set (map topic (broker_topics b))
         then Inl ''Topic with this name already exists''
         else Inr (b\<lparr>broker_topics := broker_topics b @ ts\<rparr>))
      else Inl ''Connection error'')"

text \<open>\<^verbatim>\<open>xs.join(', ')\<close>\<close>

fun join :: "string list \<Rightarrow> string" where
  "join [] = []"
| "join [x] = x"
| "join (x # y # ys) = x @ '', '' @ join (y # ys)"

text \<open>
  \<^verbatim>\<open>connectToKafka\<close> of the producer. The result is \<open>Inl 1\<close> when the catch block
  ends the process with \<^verbatim>\<open>process.exit(1)\<close>, and the broker after the call otherwise.
  The two \<open>connect\<close> calls are the producer's and the admin client's; the closing
  \<^verbatim>\<open>admin.disconnect()\<close> changes nothing on the broker.
\<close>

definition connect_failed :: "log_line list \<Rightarrow> string \<Rightarrow> (nat + broker) \<times> log_line list" where
  "connect_failed ls msg = (Inl 1, ls @ [LogError (''Error connecting to Kafka: '' @ msg)])"

definition connectToKafka :: "broker \<Rightarrow> (nat + broker) \<times> log_line list" where
  "connectToKafka b =
     (case connect b of
        Inl msg \<Rightarrow> connect_failed [LogInfo ''Connecting to Kafka''] msg
      | Inr u \<Rightarrow>
          (let ls = [LogInfo ''Connecting to Kafka'', LogInfo ''Connected to Kafka''] in
           case connect b of
             Inl msg \<Rightarrow> connect_failed ls msg
           | Inr u \<Rightarrow>
               (case listTopics b of
                  Inl msg \<Rightarrow> connect_failed ls msg
                | Inr existingTopics \<Rightarrow>
                    (let topicsToCreate =
                           map (\<lambda>t. \<lparr>topic = t, numPartitions = 1, replicationFactor = 1\<rparr>)
                             (filter (\<lambda>t. t \<notin> set existingTopics) [API_LOGS, SYSTEM_METRICS])
                     in if length topicsToCreate > 0 then
                          (let ls' = ls @ [LogInfo (''Creating topics: '' @ join (map topic topicsToCreate))] in
                           case createTopics topicsToCreate b of
                             Inl msg \<Rightarrow> connect_failed ls' msg
                           | Inr b' \<Rightarrow> (Inr b', ls' @ [LogInfo ''Topics created successfully'']))
                        else (Inr b, ls)))))"

text \<open>
  The outcome of the probe \<^verbatim>\<open>axios.get(url, {timeout: 3000})\<close>: the promise resolves
  with a status and the response headers (axios resolves on a 2xx status only), or rejects
  with an error that carries a message and, when the service answered, the response's status.
\<close>

datatype http_result =
    Resolved real "(string \<times> string) list"
  | Failed string "real option"

text \<open>The broker's answer to one \<^verbatim>\<open>producer.send\<close>.\<close>

datatype send_reply = SendOk | SendFailed string

record kafka_message =
  msg_topic :: string
  msg_value :: string

text \<open>
  What one run of a collector leaves behind: the log entries it built (in order), the
  messages the broker accepted, and the lines it logged.
\<close>

record collect_result =
  built :: "jsval list"
  sent :: "kafka_message list"
  printed :: "log_line list"

definition endpoints :: "string list" where
  "endpoints = [''/'', ''/users'', ''/products'', ''/orders'']"

text \<open>\<^verbatim>\<open>xs[i]\<close>: the element, or \<^verbatim>\<open>undefined\<close> out of range.\<close>

definition js_index :: "string list \<Rightarrow> int \<Rightarrow> string option" where
  "js_index xs i = (if 0 \<le> i \<and> i < int (length xs) then Some (xs ! nat i) else None)"

definition str_or_undefined :: "string option \<Rightarrow> jsval" where
  "str_or_undefined x = (case x of None \<Rightarrow> JUndefined | Some s \<Rightarrow> JStr s)"

text \<open>A string or \<^verbatim>\<open>undefined\<close> inside a template literal.\<close>

definition template :: "string option \<Rightarrow> string" where
  "template x = (case x of None \<Rightarrow> ''undefined'' | Some s \<Rightarrow> s)"

text \<open>
  The success log entry (lines 90 to 96). \<open>rnd\<close> rounds the exact result of an arithmetic
  operation to a JavaScript number; the filler's random draw is read only when the header is
  missing or empty.
\<close>

definition success_logEntry ::
  "(real \<Rightarrow> real) \<Rightarrow> string \<Rightarrow> string option \<Rightarrow> real \<Rightarrow> (string \<times> string) list \<Rightarrow> real \<Rightarrow> jsval" where
  "success_logEntry rnd now randomEndpoint status headers r_filler =
     JObj [(''timestamp'', JStr now),
           (''endpoint'', str_or_undefined randomEndpoint),
           (''status'', JNum status),
           (''responseTime'',
              js_or (str_or_undefined (map_of headers ''x-response-time''))
                    (JNum (of_int (\<lfloor>rnd (r_filler * 200)\<rfloor>) + 50))),
           (''method'', JStr ''GET'')]"

text \<open>The error log entry of the catch block (lines 109 to 114).\<close>

definition error_logEntry :: "string \<Rightarrow> string \<Rightarrow> real option \<Rightarrow> jsval" where
  "error_logEntry now err_message err_response =
     JObj [(''timestamp'', JStr now),
           (''error'', JStr err_message),
           (''errorCode'', (case err_response of Some st \<Rightarrow> JNum st | None \<Rightarrow> JStr ''CONNECTION_ERROR'')),
           (''method'', JStr ''GET'')]"

text \<open>
  The catch block of \<^verbatim>\<open>collectApiLogs\<close>, entered with the error thrown anywhere in the
  try block, the entries built and the lines logged so far.
\<close>

definition collectApiLogs_catch ::
  "(jsval \<Rightarrow> string) \<Rightarrow> string \<Rightarrow> jsval list \<Rightarrow> log_line list \<Rightarrow> string \<Rightarrow> real option
     \<Rightarrow> send_reply \<Rightarrow> collect_result" where
  "collectApiLogs_catch JSON_stringify now bs ls err_message err_response reply =
     (let logEntry = error_logEntry now err_message err_response in
      case reply of
        SendOk \<Rightarrow>
          \<lparr> built = bs @ [logEntry],
            sent = [\<lparr>msg_topic = API_LOGS, msg_value = JSON_stringify logEntry\<rparr>],
            printed = ls @ [LogInfo ''Sent error log to Kafka''] \<rparr>
      | SendFailed kafka_msg \<Rightarrow>
          \<lparr> built = bs @ [logEntry],
            sent = [],
            printed = ls @ [LogError (''Failed to send error log to Kafka: '' @ kafka_msg)] \<rparr>)"

text \<open>
  \<^verbatim>\<open>collectApiLogs\<close>. Parameters: the rounding of number arithmetic, the runtime's
  \<^verbatim>\<open>JSON.stringify\<close>, the clock's ISO text when the try block and when the catch block
  reads it, the random draws for the endpoint and for the filler, the demo service behind
  \<^verbatim>\<open>axios.get\<close>, and the broker's answers to the send of the try block and to the
  send of the catch block. The product \<^verbatim>\<open>Math.random() * endpoints.length\<close> is a
  multiplication by four, which binary floating point performs exactly.
\<close>

definition collectApiLogs ::
  "(real \<Rightarrow> real) \<Rightarrow> (jsval \<Rightarrow> string) \<Rightarrow> string \<Rightarrow> string \<Rightarrow> real \<Rightarrow> real
     \<Rightarrow> (string \<Rightarrow> http_result) \<Rightarrow> send_reply \<Rightarrow> send_reply \<Rightarrow> collect_result" where
  "collectApiLogs rnd JSON_stringify now_try now_catch r_endpoint r_filler axios_get reply_try reply_catch =
     (let randomEndpoint = js_index endpoints \<lfloor>r_endpoint * real (length endpoints)\<rfloor>;
          ls = [LogInfo (''Probing API endpoint: '' @ template randomEndpoint)]
      in case axios_get (''http://api:3000'' @ template randomEndpoint) of
           Failed err_message err_response \<Rightarrow>
             collectApiLogs_catch JSON_stringify now_catch [] ls err_message err_response reply_catch
         | Resolved status headers \<Rightarrow>
             (let logEntry = success_logEntry rnd now_try randomEndpoint status headers r_filler in
              case reply_try of
                SendFailed kafka_msg \<Rightarrow>
                  collectApiLogs_catch JSON_stringify now_catch [logEntry] ls kafka_msg None reply_catch
              | SendOk \<Rightarrow>
                  \<lparr> built = [logEntry],
                    sent = [\<lparr>msg_topic = API_LOGS, msg_value = JSON_stringify logEntry\<rparr>],
                    printed = ls @ [LogInfo ''Sent API log to Kafka''] \<rparr>))"

text \<open>\<^verbatim>\<open>collectSystemMetrics\<close>, with one random draw per field in source order.\<close>

definition metrics_entry :: "(real \<Rightarrow> real) \<Rightarrow> string \<Rightarrow> real \<Rightarrow> real \<Rightarrow> real \<Rightarrow> real \<Rightarrow> jsval" where
  "metrics_entry rnd now r_cpu r_memory r_disk r_active =
     JObj [(''timestamp'', JStr now),
           (''cpu'', JNum (rnd (r_cpu * 100))),
           (''memory'', JNum (rnd (r_memory * 100))),
           (''diskUsage'', JNum (rnd (50 + rnd (r_disk * 30)))),
           (''activeRequests'', JNum (of_int \<lfloor>rnd (r_active * 50)\<rfloor>))]"

definition collectSystemMetrics ::
  "(real \<Rightarrow> real) \<Rightarrow> (jsval \<Rightarrow> string) \<Rightarrow> string \<Rightarrow> real \<Rightarrow> real \<Rightarrow> real \<Rightarrow> real
     \<Rightarrow> send_reply \<Rightarrow> collect_result" where
  "collectSystemMetrics rnd JSON_stringify now r_cpu r_memory r_disk r_active reply =
     (let metrics = metrics_entry rnd now r_cpu r_memory r_disk r_active in
      case reply of
        SendOk \<Rightarrow>
          \<lparr> built = [metrics],
            sent = [\<lparr>msg_topic = SYSTEM_METRICS, msg_value = JSON_stringify metrics\<rparr>],
            printed = [LogInfo ''Sent system metrics to Kafka''] \<rparr>
      | SendFailed msg \<Rightarrow>
          \<lparr> built = [metrics],
            sent = [],
            printed = [LogError (''Error collecting system metrics: '' @ msg)] \<rparr>)"

section \<open>The demo service (unnamed/part_002)\<close>

record http_response =
  resp_status :: nat
  resp_body :: jsval

text \<open>
  \<^verbatim>\<open>simulateLatency\<close>: the busy wait it chooses (in milliseconds) when it returns, the
  message of the error it throws with the last draw below 0.05 otherwise. One parameter per
  \<^verbatim>\<open>Math.random()\<close> call of the source; the draw of the long delay is read only on
  the slow branch.
\<close>

definition simulateLatency :: "(real \<Rightarrow> real) \<Rightarrow> real \<Rightarrow> real \<Rightarrow> real \<Rightarrow> real \<Rightarrow> string + int" where
  "simulateLatency rnd r_delay r_slow r_long r_fail =
     (let delay = \<lfloor>rnd (r_delay * 290)\<rfloor> + 10;
          waited = (if r_slow < 0.1 then \<lfloor>rnd (r_long * 700)\<rfloor> + 300 else delay)
      in if r_fail < 0.05 then Inl ''Random error occurred'' else Inr waited)"

text \<open>The error handling middleware, which answers for a handler that threw.\<close>

definition error_middleware :: "string \<Rightarrow> http_response \<times> log_line list" where
  "error_middleware msg =
     (\<lparr>resp_status = 500, resp_body = JObj [(''error'', JStr ''Internal server error'')]\<rparr>,
      [LogError ''Application error''])"

text \<open>
  The properties an object spread \<^verbatim>\<open>...v\<close> copies. Only an object reaches the spread
  of the handler below (lemma \<open>order_accepted_is_object\<close>).
\<close>

fun own_props :: "jsval \<Rightarrow> (string \<times> jsval) list" where
  "own_props (JObj kvs) = kvs"
| "own_props v = []"

text \<open>
  An object literal sets its properties from left to right: a key set again keeps its place
  and takes the new value.
\<close>

definition set_props :: "(string \<times> jsval) list \<Rightarrow> (string \<times> jsval) list \<Rightarrow> (string \<times> jsval) list" where
  "set_props obj kvs = fold (\<lambda>(k, v) acc. AList.update k v acc) kvs obj"

text \<open>
  The handler of \<^verbatim>\<open>POST /orders\<close>; \<open>body\<close> is \<^verbatim>\<open>req.body\<close> as the JSON body
  parser left it, \<open>now\<close> the clock's text for \<^verbatim>\<open>createdAt\<close>.
\<close>

definition post_orders ::
  "(real \<Rightarrow> real) \<Rightarrow> real \<Rightarrow> real \<Rightarrow> real \<Rightarrow> real \<Rightarrow> real \<Rightarrow> string \<Rightarrow> jsval
     \<Rightarrow> http_response \<times> log_line list" where
  "post_orders rnd r_delay r_slow r_long r_fail r_id now body =
     (case simulateLatency rnd r_delay r_slow r_long r_fail of
        Inl msg \<Rightarrow> error_middleware msg
      | Inr waited \<Rightarrow>
          (if \<not> truthy body \<or> \<not> truthy (get_prop body ''user_id'')
                \<or> \<not> truthy (get_prop body ''product_id'')
           then (\<lparr>resp_status = 400, resp_body = JObj [(''error'', JStr ''Invalid order data'')]\<rparr>,
                 [LogError ''Invalid order data''])
           else (\<lparr>resp_status = 201,
                   resp_body =
                     JObj (set_props [(''id'', JNum (of_int \<lfloor>rnd (r_id * 1000)\<rfloor>))]
                             (own_props body @ [(''createdAt'', JStr now)]))\<rparr>,
                 [])))"

section \<open>The viewer (unnamed/part_001)\<close>

text \<open>
  What the viewer does on its terminal, in order. The line feeds that open some of the
  printed texts are left out.
\<close>

datatype viewer_event =
    Clear
  | Print string
  | Logged log_line
  | Question string

text \<open>
  How one menu choice ends. \<open>Prompted\<close>: \<^verbatim>\<open>promptToContinue\<close> was called, so Enter
  leads back to the main menu. \<open>Threw\<close>: the operation's promise rejected, for the awaiting
  caller to catch. \<open>UnhandledRejection\<close>: a promise that nothing awaits rejected, inside a
  readline callback; no prompt was issued, and the runtime treats the rejection as an uncaught
  error. \<open>Closed\<close>: readline and the pool were closed.
\<close>

datatype viewer_end =
    Prompted
  | Threw string
  | UnhandledRejection string
  | Closed

text \<open>The store's answer to a SELECT: the rows as objects, or the rejection's message.\<close>

datatype select_reply = Rows "jsval list" | SelectFailed string

text \<open>
  \<open>print_rows\<close> is the common tail of the query operations: the heading, then the rows
  (or the line for none), then \<^verbatim>\<open>promptToContinue\<close>. The row formatters
  (\<^verbatim>\<open>formatApiLog\<close>, \<^verbatim>\<open>formatSystemMetric\<close>) print dates and numbers through
  the runtime and are taken as a parameter.
\<close>

definition print_rows ::
  "(jsval \<Rightarrow> string) \<Rightarrow> viewer_event list \<Rightarrow> string \<Rightarrow> string \<Rightarrow> select_reply
     \<Rightarrow> viewer_event list \<times> viewer_end" where
  "print_rows fmt before heading none reply =
     (case reply of
        SelectFailed msg \<Rightarrow> (before, Threw msg)
      | Rows rows \<Rightarrow>
          (before @ [Print heading]
             @ (if length rows = 0 then [Print none] else map (\<lambda>r. Print (fmt r)) rows),
           Prompted))"

definition viewRecentApiLogs :: "(jsval \<Rightarrow> string) \<Rightarrow> select_reply \<Rightarrow> viewer_event list \<times> viewer_end" where
  "viewRecentApiLogs formatApiLog reply =
     print_rows formatApiLog [Clear, Logged (LogInfo ''Fetching recent API logs...'')]
       ''===== Recent API Logs ====='' ''No logs found'' reply"

definition viewRecentSystemMetrics :: "(jsval \<Rightarrow> string) \<Rightarrow> select_reply \<Rightarrow> viewer_event list \<times> viewer_end" where
  "viewRecentSystemMetrics formatSystemMetric reply =
     print_rows formatSystemMetric [Clear, Logged (LogInfo ''Fetching recent system metrics...'')]
       ''===== Recent System Metrics ====='' ''No metrics found'' reply"

definition viewSlowResponses :: "(jsval \<Rightarrow> string) \<Rightarrow> select_reply \<Rightarrow> viewer_event list \<times> viewer_end" where
  "viewSlowResponses formatApiLog reply =
     print_rows formatApiLog [Clear, Logged (LogInfo ''Fetching slow responses (>200ms)...'')]
       ''===== Slow Responses (>200ms) ====='' ''No slow responses found'' reply"

definition viewErrorLogs :: "(jsval \<Rightarrow> string) \<Rightarrow> select_reply \<Rightarrow> viewer_event list \<times> viewer_end" where
  "viewErrorLogs formatApiLog reply =
     print_rows formatApiLog [Clear, Logged (LogInfo ''Fetching error logs...'')]
       ''===== Error Logs ====='' ''No error logs found'' reply"

text \<open>
  A rejected query inside the callback of \<^verbatim>\<open>rl.question\<close>: the callback is an async
  function that readline calls and nobody awaits, so its rejection is unhandled.
\<close>

definition in_callback :: "viewer_event list \<times> viewer_end \<Rightarrow> viewer_event list \<times> viewer_end" where
  "in_callback r = (case r of (evs, Threw msg) \<Rightarrow> (evs, UnhandledRejection msg) | _ \<Rightarrow> r)"

definition search_endpoints :: "string list" where
  "search_endpoints = [''/users'', ''/products'', ''/health'', ''/orders'']"

text \<open>
  \<^verbatim>\<open>searchLogsByEndpoint\<close>; \<open>parseInt\<close> is the runtime's (\<open>None\<close> for NaN),
  \<open>num\<close> the line the user answers with.
\<close>

definition searchLogsByEndpoint ::
  "(string \<Rightarrow> int option) \<Rightarrow> (jsval \<Rightarrow> string) \<Rightarrow> string \<Rightarrow> select_reply
     \<Rightarrow> viewer_event list \<times> viewer_end" where
  "searchLogsByEndpoint parseInt formatApiLog num reply =
     (let menu = [Clear, Print ''Select an endpoint to search:'']
                   @ map Print [''1. /users'', ''2. /products'', ''3. /health'', ''4. /orders'']
                   @ [Question ''Enter the number of your choice: '']
      in in_callback
           (case parseInt num of
              None \<Rightarrow> (menu @ [Logged (LogError ''Invalid choice'')], Prompted)
            | Some choice \<Rightarrow>
                if choice < 1 \<or> choice > int (length search_endpoints)
                then (menu @ [Logged (LogError ''Invalid choice'')], Prompted)
                else
                  (let selectedEndpoint = search_endpoints ! nat (choice - 1) in
                   print_rows formatApiLog
                     (menu @ [Clear, Logged (LogInfo (''Searching logs for endpoint: '' @ selectedEndpoint))])
                     (''===== Logs for endpoint: '' @ selectedEndpoint @ '' ====='')
                     ''No logs found'' reply)))"

text \<open>\<^verbatim>\<open>searchLogsByStatus\<close>; \<open>status\<close> is the line the user answers with.\<close>

definition searchLogsByStatus ::
  "(jsval \<Rightarrow> string) \<Rightarrow> string \<Rightarrow> select_reply \<Rightarrow> viewer_event list \<times> viewer_end" where
  "searchLogsByStatus formatApiLog status reply =
     in_callback
       (print_rows formatApiLog
          [Question ''Enter status code (e.g., 200, 404, 500): '', Clear,
           Logged (LogInfo (''Searching logs for status code: '' @ status))]
          (''===== Logs with status code: '' @ status @ '' ====='')
          ''No logs found'' reply)"

text \<open>
  \<^verbatim>\<open>tailLogs\<close>: the first query is awaited by the operation itself; every poll of the
  interval runs in its own try/catch. \<open>polls\<close> are the store's answers to the polls that
  ran before the timeout stopped the interval; the identifier the polls start from only
  selects which rows the store answers with.
\<close>

definition poll_events :: "(jsval \<Rightarrow> string) \<Rightarrow> select_reply \<Rightarrow> viewer_event list" where
  "poll_events formatApiLog reply =
     (case reply of
        SelectFailed msg \<Rightarrow> [Logged (LogError (''Error polling for new logs: '' @ msg))]
      | Rows rows \<Rightarrow> map (\<lambda>r. Print (formatApiLog r)) rows)"

definition tailLogs ::
  "(jsval \<Rightarrow> string) \<Rightarrow> select_reply \<Rightarrow> select_reply list \<Rightarrow> viewer_event list \<times> viewer_end" where
  "tailLogs formatApiLog reply polls =
     (let before = [Clear, Print ''===== Real-time Logs (Ctrl+C to stop) =====''] in
      case reply of
        SelectFailed msg \<Rightarrow> (before, Threw msg)
      | Rows rows \<Rightarrow>
          (before @ [Print ''Monitoring for new logs (will stop after 60 seconds)...'']
             @ concat (map (poll_events formatApiLog) polls)
             @ [Print ''Stopped real-time log monitoring.''],
           Prompted))"

text \<open>
  \<^verbatim>\<open>handleMenuChoice\<close>: the switch inside the try block, then the catch block, which
  sees exactly the errors the awaited operation threw. \<open>answer\<close> is what the user types at
  the second question of choices 3 and 4, \<open>reply\<close> the store's answer to the operation's
  query.
\<close>

definition menu_operation ::
  "(string \<Rightarrow> int option) \<Rightarrow> (jsval \<Rightarrow> string) \<Rightarrow> (jsval \<Rightarrow> string) \<Rightarrow> string \<Rightarrow> string
     \<Rightarrow> select_reply \<Rightarrow> select_reply list \<Rightarrow> viewer_event list \<times> viewer_end" where
  "menu_operation parseInt formatApiLog formatSystemMetric choice answer reply polls =
     (if choice = ''1'' then viewRecentApiLogs formatApiLog reply
      else if choice = ''2'' then viewRecentSystemMetrics formatSystemMetric reply
      else if choice = ''3'' then searchLogsByEndpoint parseInt formatApiLog answer reply
      else if choice = ''4'' then searchLogsByStatus formatApiLog answer reply
      else if choice = ''5'' then viewSlowResponses formatApiLog reply
      else if choice = ''6'' then viewErrorLogs formatApiLog reply
      else if choice = ''7'' then tailLogs formatApiLog reply polls
      else if choice = ''8'' then ([Logged (LogInfo ''Exiting application'')], Closed)
      else ([Logged (LogError ''Invalid option selected'')], Prompted))"

definition handleMenuChoice ::
  "(string \<Rightarrow> int option) \<Rightarrow> (jsval \<Rightarrow> string) \<Rightarrow> (jsval \<Rightarrow> string) \<Rightarrow> string \<Rightarrow> string
     \<Rightarrow> select_reply \<Rightarrow> select_reply list \<Rightarrow> viewer_event list \<times> viewer_end" where
  "handleMenuChoice parseInt formatApiLog formatSystemMetric choice answer reply polls =
     (case menu_operation parseInt formatApiLog formatSystemMetric choice answer reply polls of
        (evs, Threw msg) \<Rightarrow> (evs @ [Logged (LogError (''Error: '' @ msg))], Prompted)
      | r \<Rightarrow> r)"

section \<open>Properties of events and rows\<close>

text \<open>
  The event fields that \<^verbatim>\<open>processApiLog\<close> binds through \<^verbatim>\<open>|| null\<close>, the column
  each event field is stored in, and the round trip: every column holds what the event's
  field binds to.
\<close>

definition defaulted_fields :: "string list" where
  "defaulted_fields = [''status'', ''responseTime'', ''method'', ''error'', ''errorCode'']"

definition event_column :: "string \<Rightarrow> api_log_row \<Rightarrow> jsval option" where
  "event_column k row =
     (if k = ''endpoint'' then endpoint_col row
      else if k = ''status'' then status_col row
      else if k = ''responseTime'' then response_time_col row
      else if k = ''method'' then method_col row
      else if k = ''error'' then error_col row
      else if k = ''errorCode'' then error_code_col row
      else None)"

definition row_equals_event :: "api_log_row \<Rightarrow> jsval \<Rightarrow> bool" where
  "row_equals_event row ev =
     (\<forall>k \<in> set (''endpoint'' # defaulted_fields). event_column k row = sql_param (get_prop ev k))"

text \<open>The store before any insert.\<close>

definition empty_store :: store where
  "empty_store = \<lparr>api_logs = [], system_metrics = []\<rparr>"

text \<open>
  The two shapes of an API log event: the pair (status, responseTime) without the pair
  (error, errorCode), and the reverse. An event populates exactly one pair when it has one
  of the two shapes (they exclude each other).
\<close>

definition success_shaped :: "jsval \<Rightarrow> bool" where
  "success_shaped e =
     (has_field e ''status'' \<and> has_field e ''responseTime''
      \<and> \<not> has_field e ''error'' \<and> \<not> has_field e ''errorCode'')"

definition error_shaped :: "jsval \<Rightarrow> bool" where
  "error_shaped e =
     (has_field e ''error'' \<and> has_field e ''errorCode''
      \<and> \<not> has_field e ''status'' \<and> \<not> has_field e ''responseTime'')"


text \<open>A number within bounds; a number that is a non-negative integer.\<close>

definition in_range :: "real \<Rightarrow> real \<Rightarrow> jsval \<Rightarrow> bool" where
  "in_range lo hi v = (case v of JNum x \<Rightarrow> lo \<le> x \<and> x \<le> hi | _ \<Rightarrow> False)"

definition nonneg_integer :: "jsval \<Rightarrow> bool" where
  "nonneg_integer v = (case v of JNum x \<Rightarrow> 0 \<le> x \<and> x = of_int \<lfloor>x\<rfloor> | _ \<Rightarrow> False)"

text \<open>
  What the bounds of the metric fields need of the rounding of number arithmetic: it is
  monotone, and exact on the integers 0, 30, 50, 80 and 100.
\<close>

definition rounding :: "(real \<Rightarrow> real) \<Rightarrow> bool" where
  "rounding rnd =
     (mono rnd \<and> rnd 0 = 0 \<and> rnd 30 = 30 \<and> rnd 50 = 50 \<and> rnd 80 = 80 \<and> rnd 100 = 100)"

text \<open>The names of the fixed two-topic set that a broker does not hold.\<close>

definition missing_topics :: "broker \<Rightarrow> string list" where
  "missing_topics b =
     filter (\<lambda>t. t \<notin> set (map topic (broker_topics b))) [API_LOGS, SYSTEM_METRICS]"

text \<open>No line at error level.\<close>

definition no_error_logged :: "log_line list \<Rightarrow> bool" where
  "no_error_logged ls = (\<forall>l \<in> set ls. case l of LogError msg \<Rightarrow> False | LogInfo msg \<Rightarrow> True)"

section \<open>Verified properties\<close>

text \<open>
  The \<^verbatim>\<open>|| null\<close> defaulting of \<^verbatim>\<open>processApiLog\<close>, as the store sees it.
\<close>

lemma sql_param_js_or:
  "sql_param (js_or v JNull) = (if truthy v then Some v else None)"
  by (cases v) (simp_all add: sql_param_def js_or_def)

lemma sql_param_truthy: "truthy v \<Longrightarrow> sql_param v = Some v"
  by (cases v) (simp_all add: sql_param_def)

text \<open>
  Claim C3. A message whose value is not JSON: \<^verbatim>\<open>JSON.parse\<close> throws, the handler's
  catch block logs the parse error, and the store is left as it was (no row in
  \<open>api_logs\<close>, none in \<open>system_metrics\<close>), whatever the topic and whatever the store
  would have answered. The handler returns normally.
\<close>

theorem malformed_message_discarded:
  "JSON_parse s = Inl msg \<Longrightarrow>
     eachMessage JSON_parse reply tp (Some s) st
       = (st, [LogError (''Error processing message: '' @ msg)])"
  by (simp add: eachMessage_def)

theorem malformed_message_discarded_witness:
  "eachMessage (\<lambda>s. if s = ''{}'' then Inr (JObj []) else Inl ''Unexpected token'') QueryOk API_LOGS
       (Some ''not json'') empty_store
     = (empty_store, [LogError ''Error processing message: Unexpected token''])"
  using malformed_message_discarded
    [of "\<lambda>s. if s = ''{}'' then Inr (JObj []) else Inl ''Unexpected token''" "''not json''"
        "''Unexpected token''" QueryOk API_LOGS empty_store]
  by simp

text \<open>
  Claim C1, amended. An API log event consumed from the \<open>api-logs\<close> topic, when the store
  accepts the insert and none of the event's five defaulted fields (status, responseTime,
  method, error, errorCode) has a falsy value other than null (0, the empty string, false):
  exactly one row is appended to \<open>api_logs\<close>, nothing else changes, the row's timestamp
  is the date built from the event's timestamp, and the row's endpoint, status,
  response_time, method, error and error_code columns equal the event's fields (an absent
  or null field is SQL NULL). The witness is the spec's scenario: the \<open>/users\<close>
  event with status 200 and responseTime 42 yields one row with status 200 and
  response_time 42.
\<close>

theorem api_log_roundtrip:
  assumes "JSON_parse s = Inr (JObj kvs)"
    and "\<forall>k \<in> set defaulted_fields.
           truthy (get_prop (JObj kvs) k) \<or> sql_param (get_prop (JObj kvs) k) = None"
  shows "\<exists>row. eachMessage JSON_parse QueryOk API_LOGS (Some s) st
              = (st\<lparr>api_logs := api_logs st @ [row]\<rparr>,
                 [LogInfo (''Received message from topic '' @ API_LOGS),
                  LogInfo ''API log stored in database''])
            \<and> timestamp_col row = NewDate (get_prop (JObj kvs) ''timestamp'')
            \<and> row_equals_event row (JObj kvs)"
proof -
  let ?ev = "JObj kvs"
  let ?row = "api_log_params (get_prop ?ev)"
  have run: "eachMessage JSON_parse QueryOk API_LOGS (Some s) st
              = (st\<lparr>api_logs := api_logs st @ [?row]\<rparr>,
                 [LogInfo (''Received message from topic '' @ API_LOGS),
                  LogInfo ''API log stored in database''])"
    using assms(1) by (simp add: eachMessage_def processApiLog_def destructure_def)
  have col: "sql_param (js_or (get_prop ?ev k) JNull) = sql_param (get_prop ?ev k)"
    if "k \<in> set defaulted_fields" for k
  proof -
    from assms(2) that
    have "truthy (get_prop ?ev k) \<or> sql_param (get_prop ?ev k) = None" by (rule bspec)
    then show ?thesis
      by (auto simp: sql_param_js_or sql_param_truthy)
  qed
  have eq: "row_equals_event ?row ?ev"
    using col by (simp add: row_equals_event_def event_column_def api_log_params_def defaulted_fields_def)
  have ts: "timestamp_col ?row = NewDate (get_prop ?ev ''timestamp'')"
    by (simp add: api_log_params_def)
  show ?thesis
    by (rule exI [of _ ?row], intro conjI) (fact run ts eq)+
qed

theorem api_log_roundtrip_witness:
  "eachMessage
      (\<lambda>s. Inr (JObj [(''timestamp'', JStr ''T''), (''endpoint'', JStr ''/users''),
                       (''status'', JNum 200), (''responseTime'', JNum 42), (''method'', JStr ''GET'')]))
      QueryOk API_LOGS (Some ''payload'') empty_store
     = (\<lparr>api_logs =
            [\<lparr>timestamp_col = NewDate (JStr ''T''), endpoint_col = Some (JStr ''/users''),
              status_col = Some (JNum 200), response_time_col = Some (JNum 42),
              method_col = Some (JStr ''GET''), error_col = None, error_code_col = None\<rparr>],
          system_metrics = []\<rparr>,
        [LogInfo ''Received message from topic api-logs'', LogInfo ''API log stored in database''])"
proof -
  let ?kvs = "[(''timestamp'', JStr ''T''), (''endpoint'', JStr ''/users''),
               (''status'', JNum 200), (''responseTime'', JNum 42), (''method'', JStr ''GET'')]"
  let ?parse = "\<lambda>s::string. (Inr (JObj ?kvs) :: string + jsval)"
  have h1: "?parse ''payload'' = Inr (JObj ?kvs)"
    by simp
  have h2: "\<forall>k \<in> set defaulted_fields.
              truthy (get_prop (JObj ?kvs) k) \<or> sql_param (get_prop (JObj ?kvs) k) = None"
    by (simp add: defaulted_fields_def sql_param_def)
  show ?thesis
    using api_log_roundtrip [of ?parse "''payload''" ?kvs empty_store, OF h1 h2]
    by (simp add: eachMessage_def processApiLog_def destructure_def api_log_params_def
          sql_param_def js_or_def empty_store_def API_LOGS_def)
qed

text \<open>
  The claim as written fails on an event with a falsy field: a response time of 0
  milliseconds is stored as NULL.
\<close>

theorem api_log_roundtrip_counterexample:
  "response_time_col
      (last (api_logs (fst (eachMessage
         (\<lambda>s. Inr (JObj [(''timestamp'', JStr ''T''), (''endpoint'', JStr ''/users''),
                          (''status'', JNum 200), (''responseTime'', JNum 0), (''method'', JStr ''GET'')]))
         QueryOk API_LOGS (Some ''payload'') empty_store))))
     = None
   \<and> \<not> row_equals_event
      (last (api_logs (fst (eachMessage
         (\<lambda>s. Inr (JObj [(''timestamp'', JStr ''T''), (''endpoint'', JStr ''/users''),
                          (''status'', JNum 200), (''responseTime'', JNum 0), (''method'', JStr ''GET'')]))
         QueryOk API_LOGS (Some ''payload'') empty_store))))
      (JObj [(''timestamp'', JStr ''T''), (''endpoint'', JStr ''/users''),
             (''status'', JNum 200), (''responseTime'', JNum 0), (''method'', JStr ''GET'')])"
  by (simp add: eachMessage_def processApiLog_def destructure_def api_log_params_def
        sql_param_def js_or_def empty_store_def row_equals_event_def event_column_def
        defaulted_fields_def)

lemma falsy_not_null:
  "(\<not> truthy v \<and> sql_param v \<noteq> None) = (v \<in> {JBool False, JNum 0, JStr []})"
  by (cases v) (auto simp: sql_param_def)

lemma defaulted_differs:
  "((if truthy v then Some v else None) \<noteq> sql_param v) = (\<not> truthy v \<and> sql_param v \<noteq> None)"
  by (cases "sql_param v") (auto simp: sql_param_truthy)

text \<open>
  Claim C10, amended. When the consumer inserts an API log event, each of the five fields
  under the \<^verbatim>\<open>|| null\<close> defaulting (status, responseTime, method, error, errorCode) is
  stored unchanged when truthy and as NULL when falsy; the endpoint is bound without
  defaulting. The stored row differs from the event exactly on those of the five defaulted
  fields whose value is \<^verbatim>\<open>false\<close>, 0 or the empty string.
\<close>

theorem falsy_fields_stored_as_null:
  "\<exists>row. processApiLog QueryOk (JObj kvs) st
            = (st\<lparr>api_logs := api_logs st @ [row]\<rparr>, [LogInfo ''API log stored in database''])
      \<and> (\<forall>k \<in> set defaulted_fields.
            event_column k row
              = (if truthy (get_prop (JObj kvs) k) then Some (get_prop (JObj kvs) k) else None))
      \<and> event_column ''endpoint'' row = sql_param (get_prop (JObj kvs) ''endpoint'')
      \<and> (\<forall>k \<in> set (''endpoint'' # defaulted_fields).
            (event_column k row \<noteq> sql_param (get_prop (JObj kvs) k))
              = (k \<noteq> ''endpoint'' \<and> get_prop (JObj kvs) k \<in> {JBool False, JNum 0, JStr []}))"
proof -
  let ?ev = "JObj kvs"
  let ?row = "api_log_params (get_prop ?ev)"
  have run: "processApiLog QueryOk ?ev st
              = (st\<lparr>api_logs := api_logs st @ [?row]\<rparr>, [LogInfo ''API log stored in database''])"
    by (simp add: processApiLog_def destructure_def)
  have cols: "\<forall>k \<in> set defaulted_fields.
                event_column k ?row = (if truthy (get_prop ?ev k) then Some (get_prop ?ev k) else None)"
    by (simp add: defaulted_fields_def event_column_def api_log_params_def sql_param_js_or)
  have ep: "event_column ''endpoint'' ?row = sql_param (get_prop ?ev ''endpoint'')"
    by (simp add: event_column_def api_log_params_def)
  have diff: "(event_column k ?row \<noteq> sql_param (get_prop ?ev k))
                = (k \<noteq> ''endpoint'' \<and> get_prop ?ev k \<in> {JBool False, JNum 0, JStr []})"
    if k: "k \<in> set (''endpoint'' # defaulted_fields)" for k
  proof (cases "k = ''endpoint''")
    case True
    with ep show ?thesis by simp
  next
    case False
    with k have "k \<in> set defaulted_fields" by simp
    with cols have c: "event_column k ?row
        = (if truthy (get_prop ?ev k) then Some (get_prop ?ev k) else None)"
      by (rule_tac bspec)
    have "(event_column k ?row \<noteq> sql_param (get_prop ?ev k))
            = (\<not> truthy (get_prop ?ev k) \<and> sql_param (get_prop ?ev k) \<noteq> None)"
      unfolding c by (rule defaulted_differs)
    with False show ?thesis
      by (simp only: falsy_not_null simp_thms)
  qed
  from run cols ep diff show ?thesis by blast
qed

theorem falsy_fields_stored_as_null_witness:
  "processApiLog QueryOk
      (JObj [(''timestamp'', JStr ''T''), (''endpoint'', JStr ''/users''), (''status'', JNum 0),
             (''responseTime'', JNum 0), (''method'', JStr []), (''error'', JStr []),
             (''errorCode'', JStr [])])
      empty_store
     = (\<lparr>api_logs =
            [\<lparr>timestamp_col = NewDate (JStr ''T''), endpoint_col = Some (JStr ''/users''),
              status_col = None, response_time_col = None, method_col = None, error_col = None,
              error_code_col = None\<rparr>],
          system_metrics = []\<rparr>,
        [LogInfo ''API log stored in database''])"
  using falsy_fields_stored_as_null
    [of "[(''timestamp'', JStr ''T''), (''endpoint'', JStr ''/users''), (''status'', JNum 0),
          (''responseTime'', JNum 0), (''method'', JStr []), (''error'', JStr []),
          (''errorCode'', JStr [])]" empty_store]
  by (simp add: processApiLog_def destructure_def api_log_params_def sql_param_def js_or_def
        empty_store_def)

text \<open>
  The claim as written fails on the endpoint, a falsy non-timestamp field that is not
  coerced: an empty endpoint is stored as the empty string, not as NULL.
\<close>

theorem falsy_fields_stored_as_null_counterexample:
  "\<not> truthy (get_prop (JObj [(''timestamp'', JStr ''T''), (''endpoint'', JStr [])]) ''endpoint'')
   \<and> endpoint_col
        (last (api_logs (fst (processApiLog QueryOk
           (JObj [(''timestamp'', JStr ''T''), (''endpoint'', JStr [])]) empty_store))))
       = Some (JStr [])"
  by (simp add: processApiLog_def destructure_def api_log_params_def sql_param_def js_or_def
        empty_store_def)

text \<open>
  The two log entries of \<^verbatim>\<open>collectApiLogs\<close> and the fields they carry.
\<close>

lemma success_logEntry_shape:
  "success_shaped (success_logEntry rnd now ep status headers r_filler)"
  by (simp add: success_shaped_def has_field_def success_logEntry_def js_or_def
        str_or_undefined_def split: option.split)

lemma error_logEntry_shape: "error_shaped (error_logEntry now msg resp)"
  by (simp add: error_shaped_def has_field_def error_logEntry_def split: option.split)


lemma built_catch:
  "built (collectApiLogs_catch S now bs ls msg resp reply) = bs @ [error_logEntry now msg resp]"
  by (cases reply) (simp_all add: collectApiLogs_catch_def Let_def)

lemma built_collectApiLogs:
  "built (collectApiLogs rnd S n1 n2 r rf ax rt rc) =
     (let ep = js_index endpoints \<lfloor>r * real (length endpoints)\<rfloor> in
      case ax (''http://api:3000'' @ template ep) of
        Failed msg resp \<Rightarrow> [error_logEntry n2 msg resp]
      | Resolved st hs \<Rightarrow>
          (case rt of
             SendOk \<Rightarrow> [success_logEntry rnd n1 ep st hs rf]
           | SendFailed kmsg \<Rightarrow> [success_logEntry rnd n1 ep st hs rf, error_logEntry n2 kmsg None]))"
  by (simp add: collectApiLogs_def built_catch Let_def split: http_result.split send_reply.split)






text \<open>
  A random draw in [0,1) selects one of the four endpoint paths.
\<close>

lemma endpoint_index:
  assumes "0 \<le> r" "r < 1"
  shows "\<exists>ep \<in> set endpoints. js_index endpoints \<lfloor>r * real (length endpoints)\<rfloor> = Some ep"
proof -
  have len: "length endpoints = 4"
    by (simp add: endpoints_def)
  have "0 \<le> r * 4" "r * 4 < 4"
    using assms by simp_all
  then have lo: "0 \<le> \<lfloor>r * 4\<rfloor>" and hi: "\<lfloor>r * 4\<rfloor> < 4"
    by (simp_all add: floor_less_iff)
  from lo hi have "nat \<lfloor>r * 4\<rfloor> < length endpoints"
    unfolding len by linarith
  then have "endpoints ! nat \<lfloor>r * 4\<rfloor> \<in> set endpoints"
    by (rule nth_mem)
  moreover have "js_index endpoints \<lfloor>r * real (length endpoints)\<rfloor> = Some (endpoints ! nat \<lfloor>r * 4\<rfloor>)"
    using lo hi by (simp add: js_index_def len)
  ultimately show ?thesis by blast
qed

text \<open>
  Claim C9, amended. With a random draw in [0,1) the producer probes one of its four paths
  \<open>ep\<close>. When the probe resolves (a 2xx answer), the entry built from it records
  \<open>ep\<close> as its endpoint. When the probe fails in any way (no connection, a timeout, or an
  answer with a status outside 2xx), no entry built carries an endpoint field. In general,
  every success-shaped entry records \<open>ep\<close> and every error-shaped entry has no endpoint.
\<close>

theorem endpoint_recorded_on_success_only:
  assumes "0 \<le> r" "r < 1"
  shows "\<exists>ep \<in> set endpoints.
           js_index endpoints \<lfloor>r * real (length endpoints)\<rfloor> = Some ep
         \<and> (\<forall>st hs. ax (''http://api:3000'' @ ep) = Resolved st hs \<longrightarrow>
              get_prop (hd (built (collectApiLogs rnd S n1 n2 r rf ax rt rc))) ''endpoint'' = JStr ep)
         \<and> (\<forall>msg resp. ax (''http://api:3000'' @ ep) = Failed msg resp \<longrightarrow>
              (\<forall>e \<in> set (built (collectApiLogs rnd S n1 n2 r rf ax rt rc)).
                 \<not> has_field e ''endpoint''))
         \<and> (\<forall>e \<in> set (built (collectApiLogs rnd S n1 n2 r rf ax rt rc)).
              (success_shaped e \<longrightarrow> get_prop e ''endpoint'' = JStr ep)
              \<and> (error_shaped e \<longrightarrow> \<not> has_field e ''endpoint''))"
proof -
  from endpoint_index [OF assms] obtain ep
    where ep: "ep \<in> set endpoints"
      and idx: "js_index endpoints \<lfloor>r * real (length endpoints)\<rfloor> = Some ep"
    by blast
  let ?R = "collectApiLogs rnd S n1 n2 r rf ax rt rc"
  have ok_ep: "get_prop (success_logEntry rnd n1 (Some ep) st hs rf) ''endpoint'' = JStr ep" for st hs
    by (simp add: success_logEntry_def str_or_undefined_def)
  have err_ep: "\<not> has_field (error_logEntry n2 msg resp) ''endpoint''" for msg resp
    by (simp add: error_logEntry_def has_field_def)
  have ok_not_err: "\<not> error_shaped (success_logEntry rnd n1 (Some ep) st hs rf)" for st hs
    using success_logEntry_shape [of rnd n1 "Some ep" st hs rf]
    by (simp add: success_shaped_def error_shaped_def)
  have err_not_ok: "\<not> success_shaped (error_logEntry n2 msg resp)" for msg resp
    using error_logEntry_shape [of n2 msg resp]
    by (simp add: success_shaped_def error_shaped_def)
  have a: "\<forall>st hs. ax (''http://api:3000'' @ ep) = Resolved st hs \<longrightarrow>
              get_prop (hd (built ?R)) ''endpoint'' = JStr ep"
    by (cases rt) (simp_all add: built_collectApiLogs idx template_def ok_ep Let_def)
  have b: "\<forall>msg resp. ax (''http://api:3000'' @ ep) = Failed msg resp \<longrightarrow>
              (\<forall>e \<in> set (built ?R). \<not> has_field e ''endpoint'')"
    by (simp add: built_collectApiLogs idx template_def err_ep Let_def)
  have c: "\<forall>e \<in> set (built ?R).
              (success_shaped e \<longrightarrow> get_prop e ''endpoint'' = JStr ep)
              \<and> (error_shaped e \<longrightarrow> \<not> has_field e ''endpoint'')"
    by (simp add: built_collectApiLogs idx template_def ok_ep err_ep ok_not_err err_not_ok Let_def
          split: http_result.split send_reply.split)
  from ep idx a b c show ?thesis by blast
qed

theorem endpoint_recorded_on_success_only_witness:
  "get_prop (hd (built (collectApiLogs (\<lambda>x. x) (\<lambda>e. ''json'') ''t1'' ''t2'' (3 / 10) (1 / 2)
                          (\<lambda>url. if url = ''http://api:3000/users'' then Resolved 200 []
                                  else Failed ''timeout of 3000ms exceeded'' None)
                          SendOk SendOk))) ''endpoint''
     = JStr ''/users''"
proof -
  have fl: "\<lfloor>(3::real) * 4 / 10\<rfloor> = 1" "\<lfloor>(200::real) / 2\<rfloor> = 100"
    by (simp_all add: floor_eq_iff)
  have r: "(0::real) \<le> 3 / 10" "(3::real) / 10 < 1"
    by simp_all
  show ?thesis
    using endpoint_recorded_on_success_only
      [OF r, of "\<lambda>url. if url = ''http://api:3000/users'' then Resolved 200 []
                        else Failed ''timeout of 3000ms exceeded'' None"
          "\<lambda>x. x" "\<lambda>e. ''json''" "''t1''" "''t2''" "1 / 2" SendOk SendOk]
    by (simp add: built_collectApiLogs endpoints_def js_index_def success_logEntry_def
          template_def str_or_undefined_def js_or_def fl)
qed

text \<open>
  The claim as written fails for a probe that reached the service and was answered with
  status 500: the event records the status as its error code and no endpoint.
\<close>

theorem endpoint_recorded_on_success_only_counterexample:
  "printed (collectApiLogs (\<lambda>x. x) (\<lambda>e. ''json'') ''t1'' ''t2'' (3 / 10) (1 / 2)
              (\<lambda>url. Failed ''Request failed with status code 500'' (Some 500)) SendOk SendOk)
     = [LogInfo ''Probing API endpoint: /users'', LogInfo ''Sent error log to Kafka'']
   \<and> built (collectApiLogs (\<lambda>x. x) (\<lambda>e. ''json'') ''t1'' ''t2'' (3 / 10) (1 / 2)
              (\<lambda>url. Failed ''Request failed with status code 500'' (Some 500)) SendOk SendOk)
     = [JObj [(''timestamp'', JStr ''t2''), (''error'', JStr ''Request failed with status code 500''),
              (''errorCode'', JNum 500), (''method'', JStr ''GET'')]]
   \<and> get_prop (JObj [(''timestamp'', JStr ''t2''), (''error'', JStr ''Request failed with status code 500''),
                     (''errorCode'', JNum 500), (''method'', JStr ''GET'')]) ''endpoint''
     = JUndefined"
proof -
  have fl: "\<lfloor>(3::real) * 4 / 10\<rfloor> = 1"
    by (simp add: floor_eq_iff)
  show ?thesis
    by (simp add: collectApiLogs_def collectApiLogs_catch_def endpoints_def js_index_def
          error_logEntry_def template_def fl)
qed

text \<open>
  Bounds of the metric fields. Number arithmetic rounds to the nearest JavaScript number;
  \<open>rounding\<close> asks of it only that it is monotone and exact on 0, 30, 50, 80 and 100,
  which holds for IEEE rounding and for exact real arithmetic alike.
\<close>

lemma rounding_bounds:
  assumes "rounding rnd" "0 \<le> r" "r < 1"
  shows "0 \<le> rnd (r * 100)" "rnd (r * 100) \<le> 100"
    and "0 \<le> rnd (r * 30)" "rnd (r * 30) \<le> 30"
    and "0 \<le> rnd (r * 50)"
proof -
  from assms(1) have m: "mono rnd"
    and e: "rnd 0 = 0" "rnd 30 = 30" "rnd 100 = 100"
    by (simp_all add: rounding_def)
  have "rnd 0 \<le> rnd (r * 100)" "rnd (r * 100) \<le> rnd 100"
    using assms(2,3) by (auto intro!: monoD [OF m])
  then show "0 \<le> rnd (r * 100)" "rnd (r * 100) \<le> 100"
    by (simp_all add: e)
  have "rnd 0 \<le> rnd (r * 30)" "rnd (r * 30) \<le> rnd 30"
    using assms(2,3) by (auto intro!: monoD [OF m])
  then show "0 \<le> rnd (r * 30)" "rnd (r * 30) \<le> 30"
    by (simp_all add: e)
  have "rnd 0 \<le> rnd (r * 50)"
    using assms(2) by (auto intro!: monoD [OF m])
  then show "0 \<le> rnd (r * 50)"
    by (simp add: e)
qed

lemma rounding_disk:
  assumes "rounding rnd" "0 \<le> x" "x \<le> 30"
  shows "50 \<le> rnd (50 + x)" "rnd (50 + x) \<le> 80"
proof -
  from assms(1) have m: "mono rnd" and e: "rnd 50 = 50" "rnd 80 = 80"
    by (simp_all add: rounding_def)
  have "rnd 50 \<le> rnd (50 + x)" "rnd (50 + x) \<le> rnd 80"
    using assms(2,3) by (auto intro!: monoD [OF m])
  then show "50 \<le> rnd (50 + x)" "rnd (50 + x) \<le> 80"
    by (simp_all add: e)
qed

text \<open>
  Claim C5. Every system metric event that \<^verbatim>\<open>collectSystemMetrics\<close> builds has cpu and
  memory in [0,100], diskUsage in [50,80] and a non-negative integer as activeRequests, for
  all random draws in [0,1), whether or not the broker accepts the message.
\<close>

theorem metrics_in_range:
  assumes rnd: "rounding rnd"
    and cpu: "0 \<le> r_cpu" "r_cpu < 1"
    and mem: "0 \<le> r_memory" "r_memory < 1"
    and disk: "0 \<le> r_disk" "r_disk < 1"
    and act: "0 \<le> r_active" "r_active < 1"
  shows "\<forall>m \<in> set (built (collectSystemMetrics rnd S now r_cpu r_memory r_disk r_active reply)).
           in_range 0 100 (get_prop m ''cpu'')
         \<and> in_range 0 100 (get_prop m ''memory'')
         \<and> in_range 50 80 (get_prop m ''diskUsage'')
         \<and> nonneg_integer (get_prop m ''activeRequests'')"
proof -
  let ?m = "metrics_entry rnd now r_cpu r_memory r_disk r_active"
  have b: "built (collectSystemMetrics rnd S now r_cpu r_memory r_disk r_active reply) = [?m]"
    by (cases reply) (simp_all add: collectSystemMetrics_def Let_def)
  have c: "in_range 0 100 (get_prop ?m ''cpu'')"
    using rounding_bounds(1,2) [OF rnd cpu] by (simp add: metrics_entry_def in_range_def)
  have me: "in_range 0 100 (get_prop ?m ''memory'')"
    using rounding_bounds(1,2) [OF rnd mem] by (simp add: metrics_entry_def in_range_def)
  have d: "in_range 50 80 (get_prop ?m ''diskUsage'')"
    using rounding_disk [OF rnd rounding_bounds(3,4) [OF rnd disk]]
    by (simp add: metrics_entry_def in_range_def)
  have a: "nonneg_integer (get_prop ?m ''activeRequests'')"
    using rounding_bounds(5) [OF rnd act] by (simp add: metrics_entry_def nonneg_integer_def)
  from c me d a show ?thesis
    unfolding b by simp
qed

theorem metrics_in_range_witness:
  "built (collectSystemMetrics (\<lambda>x. x) (\<lambda>e. ''json'') ''t'' (1 / 2) (1 / 4) (9 / 10) (3 / 4) SendOk)
     = [JObj [(''timestamp'', JStr ''t''), (''cpu'', JNum 50), (''memory'', JNum 25),
              (''diskUsage'', JNum 77), (''activeRequests'', JNum 37)]]
   \<and> in_range 0 100 (JNum 50) \<and> in_range 0 100 (JNum 25) \<and> in_range 50 80 (JNum 77)
   \<and> nonneg_integer (JNum 37)"
proof -
  have r: "rounding (\<lambda>x. x)"
    by (simp add: rounding_def mono_def)
  have fl: "\<lfloor>(150::real) / 4\<rfloor> = 37"
    by (simp add: floor_eq_iff)
  have b: "built (collectSystemMetrics (\<lambda>x. x) (\<lambda>e. ''json'') ''t'' (1 / 2) (1 / 4) (9 / 10) (3 / 4) SendOk)
     = [JObj [(''timestamp'', JStr ''t''), (''cpu'', JNum 50), (''memory'', JNum 25),
              (''diskUsage'', JNum 77), (''activeRequests'', JNum 37)]]"
    by (simp add: collectSystemMetrics_def metrics_entry_def fl)
  from metrics_in_range [OF r, of "1 / 2" "1 / 4" "9 / 10" "3 / 4" "\<lambda>e. ''json''" "''t''" SendOk]
  show ?thesis
    unfolding b by simp
qed

text \<open>
  Claim C4 at an input where it fails. The probe of \<open>/users\<close> is answered with status 200,
  the broker rejects the send of the success entry and accepts the next send: the catch block
  of \<^verbatim>\<open>collectApiLogs\<close>, written for a failed probe, publishes an error-shaped entry
  that reports the broker's error as a probe failure with error code CONNECTION_ERROR, and no
  error line is logged.
\<close>

theorem publish_failure_publishes_substitute:
  "sent (collectApiLogs (\<lambda>x. x) S ''t1'' ''t2'' (3 / 10) (1 / 2)
           (\<lambda>url. Resolved 200 []) (SendFailed ''broker down'') SendOk)
     = [\<lparr>msg_topic = ''api-logs'',
         msg_value = S (JObj [(''timestamp'', JStr ''t2''), (''error'', JStr ''broker down''),
                              (''errorCode'', JStr ''CONNECTION_ERROR''), (''method'', JStr ''GET'')])\<rparr>]
   \<and> printed (collectApiLogs (\<lambda>x. x) S ''t1'' ''t2'' (3 / 10) (1 / 2)
           (\<lambda>url. Resolved 200 []) (SendFailed ''broker down'') SendOk)
     = [LogInfo ''Probing API endpoint: /users'', LogInfo ''Sent error log to Kafka'']"
proof -
  have fl: "\<lfloor>(3::real) * 4 / 10\<rfloor> = 1"
    by (simp add: floor_eq_iff)
  show ?thesis
    by (simp add: collectApiLogs_def collectApiLogs_catch_def endpoints_def js_index_def
          error_logEntry_def template_def API_LOGS_def Let_def fl)
qed

text \<open>
  Topic creation. \<open>missing_topics\<close> are the names of the fixed two-topic set that the broker
  does not hold yet.
\<close>

lemma count_list_distinct: "distinct xs \<Longrightarrow> x \<in> set xs \<Longrightarrow> count_list xs x = 1"
  by (induction xs) (auto simp: count_list_0_iff)

lemma topic_names_differ: "API_LOGS \<noteq> SYSTEM_METRICS"
  by (simp add: API_LOGS_def SYSTEM_METRICS_def)

lemma connectToKafka_reachable:
  assumes "reachable b"
  shows "connectToKafka b =
     (if missing_topics b = []
      then (Inr b, [LogInfo ''Connecting to Kafka'', LogInfo ''Connected to Kafka''])
      else (Inr (b\<lparr>broker_topics := broker_topics b
                   @ map (\<lambda>t. \<lparr>topic = t, numPartitions = 1, replicationFactor = 1\<rparr>) (missing_topics b)\<rparr>),
            [LogInfo ''Connecting to Kafka'', LogInfo ''Connected to Kafka'',
             LogInfo (''Creating topics: '' @ join (missing_topics b)),
             LogInfo ''Topics created successfully'']))"
proof -
  let ?cfg = "\<lambda>t. \<lparr>topic = t, numPartitions = 1, replicationFactor = 1\<rparr>"
  have c: "connect b = Inr ()"
    using assms by (simp add: connect_def)
  have l: "listTopics b = Inr (map topic (broker_topics b))"
    using assms by (simp add: listTopics_def)
  have names: "map topic (map ?cfg ts) = ts" for ts
    by (induction ts) simp_all
  have fresh: "\<not> (\<exists>t \<in> set (map ?cfg (missing_topics b)).
                 topic t \<in> set (map topic (broker_topics b)))"
    by (auto simp: missing_topics_def)
  have ct: "createTopics (map ?cfg (missing_topics b)) b
              = Inr (b\<lparr>broker_topics := broker_topics b @ map ?cfg (missing_topics b)\<rparr>)"
    unfolding createTopics_def using assms fresh by (simp only: if_True if_False)
  have len: "(length (map ?cfg (missing_topics b)) > 0) = (missing_topics b \<noteq> [])"
    by simp
  have "connectToKafka b =
     (if missing_topics b \<noteq> []
      then (case createTopics (map ?cfg (missing_topics b)) b of
              Inl msg \<Rightarrow> connect_failed
                 ([LogInfo ''Connecting to Kafka'', LogInfo ''Connected to Kafka'']
                    @ [LogInfo (''Creating topics: '' @ join (map topic (map ?cfg (missing_topics b))))]) msg
            | Inr b' \<Rightarrow> (Inr b',
                 ([LogInfo ''Connecting to Kafka'', LogInfo ''Connected to Kafka'']
                    @ [LogInfo (''Creating topics: '' @ join (map topic (map ?cfg (missing_topics b))))])
                 @ [LogInfo ''Topics created successfully'']))
      else (Inr b, [LogInfo ''Connecting to Kafka'', LogInfo ''Connected to Kafka'']))"
    unfolding connectToKafka_def c l missing_topics_def
    by (simp only: sum.case Let_def len [unfolded missing_topics_def])
  then show ?thesis
    unfolding ct names by (cases "missing_topics b = []") simp_all
qed

text \<open>
  Claim C6. Against a broker that answers and holds each topic name at most once,
  \<^verbatim>\<open>connectToKafka\<close> returns without ending the process and without logging an error; it
  leaves the broker's topics in place and adds exactly the missing ones of \<open>api-logs\<close>
  and \<open>system-metrics\<close> (one partition, replication factor 1), so that each of the two
  names is held exactly once afterwards. Run a second time, on the resulting broker, it
  requests no creation, raises no duplicate-creation error and leaves the broker unchanged.
\<close>

theorem topic_creation_idempotent:
  assumes up: "reachable b"
    and uniq: "distinct (map topic (broker_topics b))"
  shows "\<exists>b' ls. connectToKafka b = (Inr b', ls)
           \<and> no_error_logged ls
           \<and> broker_topics b' = broker_topics b
                @ map (\<lambda>t. \<lparr>topic = t, numPartitions = 1, replicationFactor = 1\<rparr>) (missing_topics b)
           \<and> count_list (map topic (broker_topics b')) API_LOGS = 1
           \<and> count_list (map topic (broker_topics b')) SYSTEM_METRICS = 1
           \<and> (\<exists>ls'. connectToKafka b' = (Inr b', ls') \<and> no_error_logged ls')"
proof -
  let ?new = "map (\<lambda>t. \<lparr>topic = t, numPartitions = 1, replicationFactor = 1\<rparr>) (missing_topics b)"
  let ?b' = "b\<lparr>broker_topics := broker_topics b @ ?new\<rparr>"
  have names: "map topic ?new = missing_topics b"
    by (simp add: o_def)
  have all: "map topic (broker_topics ?b') = map topic (broker_topics b) @ missing_topics b"
    using names by simp
  have dm: "distinct (missing_topics b)"
    using topic_names_differ by (simp add: missing_topics_def)
  have disj: "set (map topic (broker_topics b)) \<inter> set (missing_topics b) = {}"
    by (auto simp: missing_topics_def)
  have d': "distinct (map topic (broker_topics ?b'))"
    unfolding all using uniq dm disj by simp
  have mem: "API_LOGS \<in> set (map topic (broker_topics ?b'))"
            "SYSTEM_METRICS \<in> set (map topic (broker_topics ?b'))"
    unfolding all by (auto simp: missing_topics_def)
  have cnt: "count_list (map topic (broker_topics ?b')) API_LOGS = 1"
            "count_list (map topic (broker_topics ?b')) SYSTEM_METRICS = 1"
    by (rule count_list_distinct [OF d' mem(1)], rule count_list_distinct [OF d' mem(2)])
  have none': "missing_topics ?b' = []"
    using mem by (simp add: missing_topics_def)
  have up': "reachable ?b'"
    using up by simp
  have second: "connectToKafka ?b'
      = (Inr ?b', [LogInfo ''Connecting to Kafka'', LogInfo ''Connected to Kafka''])"
    using connectToKafka_reachable [OF up'] none' by simp
  have quiet2: "no_error_logged [LogInfo ''Connecting to Kafka'', LogInfo ''Connected to Kafka'']"
    by (simp add: no_error_logged_def)
  have again: "\<exists>ls'. connectToKafka ?b' = (Inr ?b', ls') \<and> no_error_logged ls'"
    by (rule exI [of _ "[LogInfo ''Connecting to Kafka'', LogInfo ''Connected to Kafka'']"])
       (rule conjI [OF second quiet2])
  have tops: "broker_topics ?b' = broker_topics b @ ?new"
    by simp
  let ?ls = "if missing_topics b = []
             then [LogInfo ''Connecting to Kafka'', LogInfo ''Connected to Kafka'']
             else [LogInfo ''Connecting to Kafka'', LogInfo ''Connected to Kafka'',
                   LogInfo (''Creating topics: '' @ join (missing_topics b)),
                   LogInfo ''Topics created successfully'']"
  have quiet: "no_error_logged ?ls"
    by (simp add: no_error_logged_def)
  have run: "connectToKafka b = (Inr ?b', ?ls)"
  proof (cases "missing_topics b = []")
    case True
    then have same: "b\<lparr>broker_topics := broker_topics b @ ?new\<rparr> = b"
      by simp
    show ?thesis
      unfolding same using connectToKafka_reachable [OF up] True by simp
  next
    case False
    with connectToKafka_reachable [OF up] show ?thesis
      by simp
  qed
  show ?thesis
    by (rule exI [of _ ?b'], rule exI [of _ ?ls], intro conjI)
       (fact run quiet tops cnt again)+
qed

theorem topic_creation_idempotent_witness:
  "connectToKafka
     \<lparr>reachable = True,
      broker_topics = [\<lparr>topic = ''api-logs'', numPartitions = 1, replicationFactor = 1\<rparr>]\<rparr>
     = (Inr \<lparr>reachable = True,
             broker_topics = [\<lparr>topic = ''api-logs'', numPartitions = 1, replicationFactor = 1\<rparr>,
                              \<lparr>topic = ''system-metrics'', numPartitions = 1, replicationFactor = 1\<rparr>]\<rparr>,
        [LogInfo ''Connecting to Kafka'', LogInfo ''Connected to Kafka'',
         LogInfo ''Creating topics: system-metrics'', LogInfo ''Topics created successfully''])
   \<and> connectToKafka
       \<lparr>reachable = True,
        broker_topics = [\<lparr>topic = ''api-logs'', numPartitions = 1, replicationFactor = 1\<rparr>,
                         \<lparr>topic = ''system-metrics'', numPartitions = 1, replicationFactor = 1\<rparr>]\<rparr>
     = (Inr \<lparr>reachable = True,
             broker_topics = [\<lparr>topic = ''api-logs'', numPartitions = 1, replicationFactor = 1\<rparr>,
                              \<lparr>topic = ''system-metrics'', numPartitions = 1, replicationFactor = 1\<rparr>]\<rparr>,
        [LogInfo ''Connecting to Kafka'', LogInfo ''Connected to Kafka''])"
proof -
  let ?b = "\<lparr>reachable = True,
             broker_topics = [\<lparr>topic = ''api-logs'', numPartitions = 1, replicationFactor = 1\<rparr>]\<rparr>"
  let ?b' = "\<lparr>reachable = True,
              broker_topics = [\<lparr>topic = ''api-logs'', numPartitions = 1, replicationFactor = 1\<rparr>,
                               \<lparr>topic = ''system-metrics'', numPartitions = 1, replicationFactor = 1\<rparr>]\<rparr>"
  have h1: "reachable ?b"
    by simp
  have h2: "distinct (map topic (broker_topics ?b))"
    by simp
  have e1: "connectToKafka ?b
      = (Inr ?b', [LogInfo ''Connecting to Kafka'', LogInfo ''Connected to Kafka'',
                   LogInfo ''Creating topics: system-metrics'', LogInfo ''Topics created successfully''])"
    using connectToKafka_reachable [of ?b]
    by (simp add: missing_topics_def API_LOGS_def SYSTEM_METRICS_def)
  have e2: "connectToKafka ?b'
      = (Inr ?b', [LogInfo ''Connecting to Kafka'', LogInfo ''Connected to Kafka''])"
    using connectToKafka_reachable [of ?b']
    by (simp add: missing_topics_def API_LOGS_def SYSTEM_METRICS_def)
  from topic_creation_idempotent [OF h1 h2]
  obtain b' ls where "connectToKafka ?b = (Inr b', ls)"
    by (elim exE conjE)
  with e1 e2 show ?thesis
    by simp
qed

text \<open>
  The order handler of the demo service.
\<close>

lemma truthy_prop_object: "truthy (get_prop body k) \<Longrightarrow> truthy body"
  by (cases body) simp_all

lemma map_of_set_props: "map_of (set_props obj kvs) = map_of obj ++ map_of (rev kvs)"
proof (induction kvs arbitrary: obj)
  case Nil
  show ?case by (simp add: set_props_def)
next
  case (Cons kv kvs)
  obtain k v where kv: "kv = (k, v)"
    by (cases kv)
  have "map_of (set_props obj (kv # kvs)) = map_of (set_props (AList.update k v obj) kvs)"
    by (simp add: set_props_def kv)
  also have "\<dots> = map_of (AList.update k v obj) ++ map_of (rev kvs)"
    by (rule Cons.IH)
  also have "\<dots> = map_of obj ++ map_of (rev (kv # kvs))"
    by (auto simp: kv update_conv' map_add_def fun_eq_iff split: option.split)
  finally show ?case .
qed

lemma order_accepted_is_object:
  "resp_status (fst (post_orders rnd r_delay r_slow r_long r_fail r_id now body)) = 201
     \<Longrightarrow> \<exists>kvs. body = JObj kvs"
  by (cases body)
     (simp_all add: post_orders_def simulateLatency_def error_middleware_def Let_def
        split: if_splits)

text \<open>
  Claim C7, amended. \<^verbatim>\<open>POST /orders\<close> answers 500 when the latency simulation throws its
  random error; otherwise 400 when the body is missing or \<open>user_id\<close> or \<open>product_id\<close>
  is missing or falsy (\<open>quantity\<close> is not looked at); otherwise 201, with an \<open>id\<close> in the
  response body: the assigned random identifier, unless the request body carries an
  \<open>id\<close> of its own, which the spread then puts in its place.
\<close>

theorem post_orders_contract:
  "resp_status (fst (post_orders rnd r_delay r_slow r_long r_fail r_id now body))
     = (if r_fail < 0.05 then 500
        else if truthy (get_prop body ''user_id'') \<and> truthy (get_prop body ''product_id'') then 201
        else 400)
   \<and> (resp_status (fst (post_orders rnd r_delay r_slow r_long r_fail r_id now body)) = 201 \<longrightarrow>
        get_prop (resp_body (fst (post_orders rnd r_delay r_slow r_long r_fail r_id now body))) ''id''
          = (case map_of (rev (own_props body)) ''id'' of
               None \<Rightarrow> JNum (of_int \<lfloor>rnd (r_id * 1000)\<rfloor>)
             | Some v \<Rightarrow> v))"
proof -
  let ?R = "post_orders rnd r_delay r_slow r_long r_fail r_id now body"
  have guard: "(\<not> truthy body \<or> \<not> truthy (get_prop body ''user_id'')
                  \<or> \<not> truthy (get_prop body ''product_id''))
               = (\<not> (truthy (get_prop body ''user_id'') \<and> truthy (get_prop body ''product_id'')))"
    using truthy_prop_object [of body "''user_id''"] by blast
  have st: "resp_status (fst ?R)
     = (if r_fail < 0.05 then 500
        else if truthy (get_prop body ''user_id'') \<and> truthy (get_prop body ''product_id'') then 201
        else 400)"
    unfolding post_orders_def guard
    by (simp add: simulateLatency_def error_middleware_def Let_def)
  have idv: "get_prop (resp_body (fst ?R)) ''id''
          = (case map_of (rev (own_props body)) ''id'' of
               None \<Rightarrow> JNum (of_int \<lfloor>rnd (r_id * 1000)\<rfloor>)
             | Some v \<Rightarrow> v)"
    if ok: "resp_status (fst ?R) = 201"
  proof -
    from ok st have a: "\<not> r_fail < 0.05"
      and b: "truthy (get_prop body ''user_id'') \<and> truthy (get_prop body ''product_id'')"
      by (auto split: if_splits)
    have body: "resp_body (fst ?R)
        = JObj (set_props [(''id'', JNum (of_int \<lfloor>rnd (r_id * 1000)\<rfloor>))]
                  (own_props body @ [(''createdAt'', JStr now)]))"
      unfolding post_orders_def guard using a b
      by (simp add: simulateLatency_def Let_def)
    show ?thesis
      unfolding body
      by (simp add: map_of_set_props map_add_def split: option.split)
  qed
  from st idv show ?thesis by blast
qed

theorem post_orders_contract_witness:
  "post_orders (\<lambda>x. x) (1 / 2) (1 / 2) (1 / 2) (1 / 2) (1 / 2) ''now''
      (JObj [(''user_id'', JNum 1), (''product_id'', JNum 2), (''quantity'', JNum 3)])
     = (\<lparr>resp_status = 201,
         resp_body = JObj [(''id'', JNum 500), (''user_id'', JNum 1), (''product_id'', JNum 2),
                           (''quantity'', JNum 3), (''createdAt'', JStr ''now'')]\<rparr>, [])"
  using post_orders_contract
    [of "\<lambda>x. x" "1 / 2" "1 / 2" "1 / 2" "1 / 2" "1 / 2" "''now''"
        "JObj [(''user_id'', JNum 1), (''product_id'', JNum 2), (''quantity'', JNum 3)]"]
  by (simp add: post_orders_def simulateLatency_def set_props_def Let_def)

text \<open>
  The claim as written fails on a body without \<open>quantity\<close>: the order is accepted with 201.
\<close>

theorem post_orders_contract_counterexample:
  "\<not> has_field (JObj [(''user_id'', JNum 1), (''product_id'', JNum 2)]) ''quantity''
   \<and> resp_status (fst (post_orders (\<lambda>x. x) (1 / 2) (1 / 2) (1 / 2) (1 / 2) (1 / 2) ''now''
                          (JObj [(''user_id'', JNum 1), (''product_id'', JNum 2)])))
     = 201"
  by (simp add: post_orders_def simulateLatency_def has_field_def Let_def)

text \<open>
  The viewer. A query error in an operation that \<^verbatim>\<open>handleMenuChoice\<close> awaits (choices 1,
  2, 5, 6 and the first query of 7) is caught: the error line is printed and the viewer
  prompts for the return to the menu.
\<close>

lemma awaited_query_error_prompts:
  assumes "choice \<in> {''1'', ''2'', ''5'', ''6'', ''7''}"
  shows "\<exists>evs. handleMenuChoice parseInt fmtLog fmtMetric choice answer (SelectFailed msg) polls
           = (evs @ [Logged (LogError (''Error: '' @ msg))], Prompted)"
  using assms
  by (auto simp: handleMenuChoice_def menu_operation_def viewRecentApiLogs_def
        viewRecentSystemMetrics_def viewSlowResponses_def viewErrorLogs_def tailLogs_def
        print_rows_def)

text \<open>
  Claim C8 at an input where it fails. In the searches by status code (choice 4) and by
  endpoint (choice 3) the query runs inside the callback of \<^verbatim>\<open>rl.question\<close>, which
  nothing awaits: a query error there reaches neither the catch block of
  \<^verbatim>\<open>handleMenuChoice\<close> nor \<^verbatim>\<open>promptToContinue\<close>. No error line is printed, no prompt
  is issued, and the rejection is unhandled.
\<close>

theorem search_query_error_unhandled:
  "handleMenuChoice parseInt fmtLog fmtMetric ''4'' ''200'' (SelectFailed ''connection terminated'') polls
     = ([Question ''Enter status code (e.g., 200, 404, 500): '', Clear,
         Logged (LogInfo ''Searching logs for status code: 200'')],
        UnhandledRejection ''connection terminated'')
   \<and> handleMenuChoice (\<lambda>s. Some 1) fmtLog fmtMetric ''3'' ''1'' (SelectFailed ''connection terminated'') polls
     = ([Clear, Print ''Select an endpoint to search:'', Print ''1. /users'', Print ''2. /products'',
         Print ''3. /health'', Print ''4. /orders'', Question ''Enter the number of your choice: '',
         Clear, Logged (LogInfo ''Searching logs for endpoint: /users'')],
        UnhandledRejection ''connection terminated'')"
  by (simp add: handleMenuChoice_def menu_operation_def searchLogsByStatus_def
        searchLogsByEndpoint_def search_endpoints_def in_callback_def print_rows_def)

end
